theory Spec2Isabelle
  imports Main "HOL-Library.Monad_Syntax"
begin

section \<open>JavaScript values, strings and numbers\<close>

text \<open>
  The program is \<^verbatim>\<open>src/scripts/scrape.ts\<close>. A JavaScript string is modelled as a
  \<^typ>\<open>string\<close>, one \<^typ>\<open>char\<close> for each code unit, so \<open>length\<close>, \<open>take\<close> and
  \<open>drop\<close> are \<^verbatim>\<open>.length\<close> and \<^verbatim>\<open>.substring\<close>; code units above 255 are outside the
  model. A field that the source reads through \<^verbatim>\<open>any\<close> and guards with \<^verbatim>\<open>&&\<close>,
  \<^verbatim>\<open>||\<close> or \<^verbatim>\<open>?.\<close> is a \<open>jsval\<close>: absent, null or a string. What the program
  prints on the console and the URLs and headers of its requests have no part in the
  values below and are left out.
\<close>

datatype jsval = JUndefined | JNull | JString string

text \<open>ToBoolean: \<^verbatim>\<open>undefined\<close>, \<^verbatim>\<open>null\<close> and the empty string are falsy.\<close>

fun truthy :: "jsval \<Rightarrow> bool" where
  "truthy JUndefined = False"
| "truthy JNull = False"
| "truthy (JString s) = (s \<noteq> [])"

text \<open>ToString, as string concatenation and template literals apply it.\<close>

fun to_string :: "jsval \<Rightarrow> string" where
  "to_string JUndefined = ''undefined''"
| "to_string JNull = ''null''"
| "to_string (JString s) = s"

text \<open>\<^verbatim>\<open>s.substring(a, b)\<close>: the arguments are swapped when \<open>a > b\<close> and clamped to the length.\<close>

definition substring :: "string \<Rightarrow> nat \<Rightarrow> nat \<Rightarrow> string" where
  "substring s a b = take (max a b - min a b) (drop (min a b) s)"

text \<open>\<^verbatim>\<open>v?.substring(a, b)\<close>: \<^verbatim>\<open>undefined\<close> when \<open>v\<close> is null or undefined.\<close>

definition opt_substring :: "jsval \<Rightarrow> nat \<Rightarrow> nat \<Rightarrow> jsval" where
  "opt_substring v a b =
     (case v of JString s \<Rightarrow> JString (substring s a b) | _ \<Rightarrow> JUndefined)"

text \<open>\<^verbatim>\<open>v + "lit"\<close>: with a string operand, \<open>+\<close> concatenates the ToString of both.\<close>

definition plus_string :: "jsval \<Rightarrow> string \<Rightarrow> string" where
  "plus_string v s = to_string v @ s"

text \<open>\<^verbatim>\<open>a || b\<close> on two strings, and on a guarded value with a string default.\<close>

definition or_string :: "string \<Rightarrow> string \<Rightarrow> string" where
  "or_string a b = (if a \<noteq> [] then a else b)"

definition or_default :: "jsval \<Rightarrow> string \<Rightarrow> string" where
  "or_default v d = (if truthy v then to_string v else d)"

text \<open>
  Number.prototype.toString on an integer below \<open>10^21\<close> in absolute value (lengths,
  request numbers, years): decimal digits, a minus sign when negative.
\<close>

definition digit_char :: "nat \<Rightarrow> char" where
  "digit_char d = ''0123456789'' ! d"

fun nat_toString :: "nat \<Rightarrow> string" where
  "nat_toString n =
     (if 10 \<le> n then nat_toString (n div 10) @ [digit_char (n mod 10)] else [digit_char n])"

declare nat_toString.simps [simp del]

definition int_toString :: "int \<Rightarrow> string" where
  "int_toString i =
     (if 0 \<le> i then nat_toString (nat i) else CHR ''-'' # nat_toString (nat (- i)))"

text \<open>\<^verbatim>\<open>s.padStart(2, "0")\<close>.\<close>

definition padStart2 :: "string \<Rightarrow> string" where
  "padStart2 s = replicate (2 - length s) (CHR ''0'') @ s"

text \<open>\<^verbatim>\<open>parts.join(", ")\<close>.\<close>

fun join :: "string \<Rightarrow> string list \<Rightarrow> string" where
  "join sep [] = []"
| "join sep [x] = x"
| "join sep (x # y # ys) = x @ sep @ join sep (y # ys)"

text \<open>
  \<^verbatim>\<open>s.split(c)\<close> for a one-character separator: the segments between the separators, at
  least one (the empty string splits into one empty segment).
\<close>

fun split_on :: "char \<Rightarrow> string \<Rightarrow> string list" where
  "split_on c [] = [[]]"
| "split_on c (x # xs) =
     (if x = c then [] # split_on c xs
      else (case split_on c xs of
              seg # segs \<Rightarrow> (x # seg) # segs
            | [] \<Rightarrow> [[x]]))"

text \<open>\<^verbatim>\<open>arr.pop()\<close> as a value: the last element, \<^verbatim>\<open>undefined\<close> on an empty array.\<close>

definition pop :: "string list \<Rightarrow> jsval" where
  "pop segs = (case segs of [] \<Rightarrow> JUndefined | _ \<Rightarrow> JString (last segs))"

abbreviation NL :: string where
  "NL \<equiv> [CHR 0x0A]"

abbreviation DQ :: char where
  "DQ \<equiv> CHR 0x22"

section \<open>Dates\<close>

text \<open>
  A \<^verbatim>\<open>Date\<close> is its time value: milliseconds since the epoch, or \<open>None\<close> for the
  Invalid Date (NaN). Time values are integers below \<open>2^53\<close>, so the doubles of the
  source compute exactly as \<^typ>\<open>int\<close>. The calendar and the parser are the host's:
  they are the fields of the environment \<open>js_env\<close>, and nothing is assumed of them.
\<close>

type_synonym js_date = "int option"

record js_env =
  parseDate :: "string \<Rightarrow> int option"  \<comment> \<open>\<^verbatim>\<open>Date.parse\<close>, \<open>None\<close> for NaN\<close>
  toISOString :: "int \<Rightarrow> string"        \<comment> \<open>of a valid time value\<close>
  getFullYear :: "int \<Rightarrow> int"           \<comment> \<open>local calendar year\<close>
  getMonth :: "int \<Rightarrow> nat"              \<comment> \<open>local month, 0 to 11\<close>
  getDate :: "int \<Rightarrow> nat"               \<comment> \<open>local day of the month, 1 to 31\<close>

text \<open>
  \<^verbatim>\<open>new Date(v)\<close>: a string is parsed, \<^verbatim>\<open>null\<close> converts to the number 0,
  \<^verbatim>\<open>undefined\<close> to NaN.
\<close>

fun new_Date :: "js_env \<Rightarrow> jsval \<Rightarrow> js_date" where
  "new_Date env (JString s) = parseDate env s"
| "new_Date env JNull = Some 0"
| "new_Date env JUndefined = None"

text \<open>\<^verbatim>\<open>a > b\<close> on two dates compares the time values; every comparison with NaN is false.\<close>

fun date_gt :: "js_date \<Rightarrow> js_date \<Rightarrow> bool" where
  "date_gt (Some a) (Some b) = (a > b)"
| "date_gt _ _ = False"

text \<open>\<^verbatim>\<open>d.toISOString()\<close> throws a RangeError on the Invalid Date: \<open>None\<close>.\<close>

fun date_toISOString :: "js_env \<Rightarrow> js_date \<Rightarrow> string option" where
  "date_toISOString env (Some t) = Some (toISOString env t)"
| "date_toISOString env None = None"

definition DAY_MS :: int where
  "DAY_MS = 24 * 60 * 60 * 1000"

text \<open>
  \<^verbatim>\<open>new Date(Date.now() - 24 * 60 * 60 * 1000)\<close>, from the reading \<open>now\<close> of the clock;
  the current time is far inside the range of valid time values.
\<close>

definition oneDayAgo :: "int \<Rightarrow> js_date" where
  "oneDayAgo now = Some (now - DAY_MS)"

text \<open>\<^verbatim>\<open>formatDate\<close>: the text of the ISO string before its first \<^verbatim>\<open>T\<close>.\<close>

definition formatDate :: "js_env \<Rightarrow> js_date \<Rightarrow> string option" where
  "formatDate env date =
     map_option (\<lambda>iso. hd (split_on (CHR ''T'') iso)) (date_toISOString env date)"

text \<open>
  \<^verbatim>\<open>getDateParts\<close>: on the Invalid Date the three getters return NaN, whose string
  \<^verbatim>\<open>NaN\<close> is already three characters long and is not padded.
\<close>

definition getDateParts :: "js_env \<Rightarrow> js_date \<Rightarrow> string \<times> string \<times> string" where
  "getDateParts env date =
     (case date of
        None \<Rightarrow> (''NaN'', padStart2 ''NaN'', padStart2 ''NaN'')
      | Some t \<Rightarrow>
          (int_toString (getFullYear env t),
           padStart2 (nat_toString (getMonth env t + 1)),
           padStart2 (nat_toString (getDate env t))))"

section \<open>The responses of the remote endpoints\<close>

text \<open>
  \<^verbatim>\<open>fetch\<close> either rejects (a network failure) or resolves to a response with a status
  and a payload; \<^verbatim>\<open>response.ok\<close> is a status from 200 to 299. For the three JSON
  endpoints the payload is \<open>None\<close> when the body is not an array of entries of the
  expected shape, so that \<^verbatim>\<open>response.json()\<close> or a callback throws inside the
  \<^verbatim>\<open>try\<close> block.
\<close>

datatype 'a fetched = Rejected | Response nat 'a

definition ok :: "nat \<Rightarrow> bool" where
  "ok status = (200 \<le> status \<and> status \<le> 299)"

section \<open>The release fetcher\<close>

record raw_release =
  raw_tag_name :: string
  raw_name :: jsval
  raw_html_url :: string
  raw_published_at :: jsval
  raw_body :: jsval

record GitHubRelease =
  tag_name :: string
  name :: string
  release_html_url :: string
  published_at :: jsval
  body :: string

text \<open>The callback of \<^verbatim>\<open>.filter\<close>: \<^verbatim>\<open>r.published_at && new Date(r.published_at) > oneDayAgo\<close>.\<close>

definition release_recent :: "js_env \<Rightarrow> int \<Rightarrow> raw_release \<Rightarrow> bool" where
  "release_recent env now r =
     (truthy (raw_published_at r) \<and> date_gt (new_Date env (raw_published_at r)) (oneDayAgo now))"

text \<open>
  The callback of \<^verbatim>\<open>.map\<close>. In \<^verbatim>\<open>release.body?.substring(0, 200) + "..." || ""\<close> the
  operator \<open>+\<close> binds tighter than \<open>||\<close>: the sum is formed first, then tested.
\<close>

definition release_record :: "raw_release \<Rightarrow> GitHubRelease" where
  "release_record release =
     \<lparr> tag_name = raw_tag_name release,
       name = or_default (raw_name release) (raw_tag_name release),
       release_html_url = raw_html_url release,
       published_at = raw_published_at release,
       body = or_string (plus_string (opt_substring (raw_body release) 0 200) ''...'') '''' \<rparr>"

definition fetchRecentReleases ::
  "js_env \<Rightarrow> int \<Rightarrow> raw_release list option fetched \<Rightarrow> GitHubRelease list" where
  "fetchRecentReleases env now response =
     (case response of
        Rejected \<Rightarrow> []
      | Response status payload \<Rightarrow>
          if \<not> ok status then []
          else (case payload of
                  None \<Rightarrow> []
                | Some releases \<Rightarrow> map release_record (filter (release_recent env now) releases)))"

section \<open>The change-request fetcher\<close>

record GitHubPR =
  number :: int
  title :: string
  pr_html_url :: string
  merged_at :: jsval

text \<open>The callback of \<^verbatim>\<open>.filter\<close>: \<^verbatim>\<open>pr.merged_at && new Date(pr.merged_at) > oneDayAgo\<close>.\<close>

definition pr_recent :: "js_env \<Rightarrow> int \<Rightarrow> GitHubPR \<Rightarrow> bool" where
  "pr_recent env now pr =
     (truthy (merged_at pr) \<and> date_gt (new_Date env (merged_at pr)) (oneDayAgo now))"

text \<open>The callback of \<^verbatim>\<open>.map\<close> keeps the four fields of the entry.\<close>

definition pr_record :: "GitHubPR \<Rightarrow> GitHubPR" where
  "pr_record pr =
     \<lparr> number = number pr, title = title pr, pr_html_url = pr_html_url pr,
       merged_at = merged_at pr \<rparr>"

definition fetchRecentPRs ::
  "js_env \<Rightarrow> int \<Rightarrow> GitHubPR list option fetched \<Rightarrow> GitHubPR list" where
  "fetchRecentPRs env now response =
     (case response of
        Rejected \<Rightarrow> []
      | Response status payload \<Rightarrow>
          if \<not> ok status then []
          else (case payload of
                  None \<Rightarrow> []
                | Some prs \<Rightarrow> map pr_record (filter (pr_recent env now) prs)))"

section \<open>The commit fetcher\<close>

text \<open>
  The nested object \<^verbatim>\<open>commit.commit.{message, author.{name, date}}\<close> is flattened into
  the fields \<open>message\<close>, \<open>author_name\<close> and \<open>author_date\<close>. The raw entry and the
  mapped record have the same fields, as the interface \<^verbatim>\<open>GitHubCommit\<close> says.
\<close>

record GitHubCommit =
  sha :: string
  message :: string
  author_name :: string
  author_date :: string
  commit_html_url :: string

definition commit_record :: "GitHubCommit \<Rightarrow> GitHubCommit" where
  "commit_record commit =
     \<lparr> sha = substring (sha commit) 0 7,
       message = hd (split_on (CHR 0x0A) (message commit)),
       author_name = author_name commit,
       author_date = author_date commit,
       commit_html_url = commit_html_url commit \<rparr>"

definition fetchRecentCommits :: "GitHubCommit list option fetched \<Rightarrow> GitHubCommit list" where
  "fetchRecentCommits response =
     (case response of
        Rejected \<Rightarrow> []
      | Response status payload \<Rightarrow>
          if \<not> ok status then []
          else (case payload of
                  None \<Rightarrow> []
                | Some commits \<Rightarrow> map commit_record commits))"

section \<open>The documentation index fetcher\<close>

record DocPage =
  doc_title :: string
  url :: string
  lastUpdated :: string

definition DOCS_BASE_URL :: string where
  "DOCS_BASE_URL = ''https://code.claude.com/docs''"

text \<open>
  The pattern \<^verbatim>\<open>/href="\/docs\/([^"]+)"/g\<close> anchored at the start of \<open>s\<close>: the
  literal prefix, a longest non-empty run of characters other than the double quote,
  and the closing quote. The result is the captured run and the text after the match.
\<close>

definition href_docs :: string where
  "href_docs = ''href='' @ [DQ] @ ''/docs/''"

definition match_link :: "string \<Rightarrow> (string \<times> string) option" where
  "match_link s =
     (if take (length href_docs) s = href_docs then
        (let rest = drop (length href_docs) s;
             captured = takeWhile (\<lambda>c. c \<noteq> DQ) rest
         in (case dropWhile (\<lambda>c. c \<noteq> DQ) rest of
               [] \<Rightarrow> None
             | _ # after \<Rightarrow> if captured = [] then None else Some (captured, after)))
      else None)"

lemma match_link_shorter: "match_link s = Some (captured, after) \<Longrightarrow> length after < length s"
proof -
  assume m: "match_link s = Some (captured, after)"
  then obtain q where q: "dropWhile (\<lambda>c. c \<noteq> DQ) (drop (length href_docs) s) = q # after"
    by (auto simp: match_link_def Let_def split: if_splits list.splits)
  have "length (dropWhile (\<lambda>c. c \<noteq> DQ) (drop (length href_docs) s)) \<le> length s"
    by (rule order_trans [OF length_dropWhile_le]) simp
  with q show ?thesis by simp
qed

text \<open>
  The loop \<^verbatim>\<open>while ((match = linkRegex.exec(html)) !== null)\<close>: each call finds the
  leftmost match at or after the end of the previous one.
\<close>

function links_from :: "string \<Rightarrow> string list" where
  "links_from s =
     (case match_link s of
        Some (captured, after) \<Rightarrow> captured # links_from after
      | None \<Rightarrow> (case s of [] \<Rightarrow> [] | _ # t \<Rightarrow> links_from t))"
  by pat_completeness auto
termination
  by (relation "measure length") (auto simp: match_link_shorter)

declare links_from.simps [simp del]

text \<open>\<^verbatim>\<open>links.add(x)\<close> on a \<^verbatim>\<open>Set\<close>, which iterates in insertion order.\<close>

definition set_add :: "string list \<Rightarrow> string \<Rightarrow> string list" where
  "set_add links x = (if x \<in> set links then links else links @ [x])"

text \<open>\<^verbatim>\<open>link.split('/').pop() || link\<close>.\<close>

definition link_title :: "string \<Rightarrow> string" where
  "link_title link = or_default (pop (split_on (CHR ''/'') link)) link"

text \<open>
  Every \<^verbatim>\<open>new Date()\<close> of the loop reads the clock again: \<open>clock k\<close> is the reading
  taken for the link at position \<open>k\<close>.
\<close>

definition doc_page :: "js_env \<Rightarrow> (nat \<Rightarrow> int) \<Rightarrow> nat \<times> string \<Rightarrow> DocPage" where
  "doc_page env clock p =
     (case p of (k, link) \<Rightarrow>
        \<lparr> doc_title = link_title link,
          url = DOCS_BASE_URL @ ''/'' @ link,
          lastUpdated = toISOString env (clock k) \<rparr>)"

definition checkDocumentationUpdates ::
  "js_env \<Rightarrow> (nat \<Rightarrow> int) \<Rightarrow> string fetched \<Rightarrow> DocPage list" where
  "checkDocumentationUpdates env clock response =
     (case response of
        Rejected \<Rightarrow> []
      | Response status html \<Rightarrow>
          if \<not> ok status then []
          else map (doc_page env clock) (enumerate 0 (foldl set_add [] (links_from html))))"

section \<open>The release-note fetcher\<close>

text \<open>
  The pattern \<^verbatim>\<open>/<h[23][^>]*>(.*?)<\/h[23]>/gi\<close>. With the flag \<open>i\<close> the letter
  matches in either case; the dot matches every character but a line terminator.
\<close>

definition is_h :: "char \<Rightarrow> bool" where
  "is_h c = (c = CHR ''h'' \<or> c = CHR ''H'')"

definition is_23 :: "char \<Rightarrow> bool" where
  "is_23 c = (c = CHR ''2'' \<or> c = CHR ''3'')"

definition line_terminator :: "char \<Rightarrow> bool" where
  "line_terminator c = (c = CHR 0x0A \<or> c = CHR 0x0D)"

text \<open>The closing tag \<^verbatim>\<open><\/h[23]>\<close> anchored at the start: the text after it.\<close>

fun match_close :: "string \<Rightarrow> string option" where
  "match_close (a # b # c # d # e # rest) =
     (if a = CHR ''<'' \<and> b = CHR ''/'' \<and> is_h c \<and> is_23 d \<and> e = CHR ''>''
      then Some rest else None)"
| "match_close _ = None"

text \<open>
  \<^verbatim>\<open>(.*?)<\/h[23]>\<close> anchored at the start: the lazy group takes the fewest characters
  that let the closing tag match, and none of them is a line terminator.
\<close>

fun lazy_body :: "string \<Rightarrow> (string \<times> string) option" where
  "lazy_body s =
     (case match_close s of
        Some rest \<Rightarrow> Some ([], rest)
      | None \<Rightarrow>
          (case s of
             [] \<Rightarrow> None
           | x # xs \<Rightarrow>
               if line_terminator x then None
               else map_option (\<lambda>(captured, rest). (x # captured, rest)) (lazy_body xs)))"

text \<open>
  The whole pattern anchored at the start: the opening tag up to its first \<^verbatim>\<open>>\<close>, then
  the group and the closing tag.
\<close>

fun match_heading :: "string \<Rightarrow> (string \<times> string) option" where
  "match_heading (a # b # c # rest) =
     (if a = CHR ''<'' \<and> is_h b \<and> is_23 c then
        (case dropWhile (\<lambda>x. x \<noteq> CHR ''>'') rest of
           [] \<Rightarrow> None
         | _ # after \<Rightarrow> lazy_body after)
      else None)"
| "match_heading _ = None"

lemma match_close_shorter: "match_close s = Some rest \<Longrightarrow> length rest < length s"
  by (induction s rule: match_close.induct) (auto split: if_splits)

lemma lazy_body_shorter: "lazy_body s = Some (captured, rest) \<Longrightarrow> length rest \<le> length s"
proof (induction s arbitrary: captured)
  case Nil
  then show ?case by simp
next
  case (Cons x xs)
  show ?case
  proof (cases "match_close (x # xs)")
    case (Some r)
    with Cons.prems have "rest = r" by simp
    with Some match_close_shorter [of "x # xs" r] show ?thesis by simp
  next
    case None
    with Cons.prems obtain c where "lazy_body xs = Some (c, rest)"
      by (auto split: if_splits)
    with Cons.IH have "length rest \<le> length xs" by blast
    then show ?thesis by simp
  qed
qed

lemma match_heading_shorter:
  "match_heading s = Some (captured, rest) \<Longrightarrow> length rest < length s"
proof (induction s rule: match_heading.induct)
  case (1 a b c r)
  then obtain q after where q: "dropWhile (\<lambda>x. x \<noteq> CHR ''>'') r = q # after"
    and l: "lazy_body after = Some (captured, rest)"
    by (auto split: if_splits list.splits)
  have "length (dropWhile (\<lambda>x. x \<noteq> CHR ''>'') r) \<le> length r"
    by (rule length_dropWhile_le)
  with q have "length after < length r" by simp
  with lazy_body_shorter [OF l] show ?case by simp
qed auto

text \<open>The loop \<^verbatim>\<open>while ((match = headingRegex.exec(html)) !== null)\<close>.\<close>

function headings_from :: "string \<Rightarrow> string list" where
  "headings_from s =
     (case match_heading s of
        Some (captured, after) \<Rightarrow> captured # headings_from after
      | None \<Rightarrow> (case s of [] \<Rightarrow> [] | _ # t \<Rightarrow> headings_from t))"
  by pat_completeness auto
termination
  by (relation "measure length") (auto simp: match_heading_shorter)

declare headings_from.simps [simp del]

text \<open>
  \<^verbatim>\<open>.replace(/<[^>]*>/g, '')\<close>: every \<^verbatim>\<open><\<close> that has a \<^verbatim>\<open>>\<close> after it is removed
  together with the text up to the first such \<^verbatim>\<open>>\<close>.
\<close>

function strip_tags :: "string \<Rightarrow> string" where
  "strip_tags [] = []"
| "strip_tags (x # xs) =
     (if x = CHR ''<'' \<and> CHR ''>'' \<in> set xs
      then strip_tags (tl (dropWhile (\<lambda>c. c \<noteq> CHR ''>'') xs))
      else x # strip_tags xs)"
  by pat_completeness auto
termination
proof (relation "measure length")
  fix x :: char and xs :: string
  have "length (tl (dropWhile (\<lambda>c. c \<noteq> CHR ''>'') xs)) \<le> length xs"
    using length_dropWhile_le [of "\<lambda>c. c \<noteq> CHR ''>''" xs] by simp
  then show "(tl (dropWhile (\<lambda>c. c \<noteq> CHR ''>'') xs), x # xs) \<in> measure length"
    by simp
qed auto

text \<open>\<^verbatim>\<open>.trim()\<close>: the white space of JavaScript among the first 256 code units.\<close>

definition white_space :: "char \<Rightarrow> bool" where
  "white_space c =
     (c = CHR 0x09 \<or> c = CHR 0x0A \<or> c = CHR 0x0B \<or> c = CHR 0x0C \<or> c = CHR 0x0D
      \<or> c = CHR 0x20 \<or> c = CHR 0xA0)"

definition trim :: "string \<Rightarrow> string" where
  "trim s = rev (dropWhile white_space (rev (dropWhile white_space s)))"

definition checkReleaseNotes :: "string fetched \<Rightarrow> string list" where
  "checkReleaseNotes response =
     (case response of
        Rejected \<Rightarrow> []
      | Response status html \<Rightarrow>
          if \<not> ok status then []
          else filter (\<lambda>text. text \<noteq> [] \<and> length text > 0)
                 (map (\<lambda>captured. trim (strip_tags captured)) (headings_from html)))"

section \<open>The report and its summary\<close>

record github_data =
  commits :: "GitHubCommit list"
  releases :: "GitHubRelease list"
  pullRequests :: "GitHubPR list"

record DailyReport =
  date :: string
  summary :: string
  github :: github_data
  docs :: "DocPage list"
  releaseNotes :: "string list"

text \<open>
  One line of \<^verbatim>\<open>main\<close>:
  \<^verbatim>\<open>if (xs.length > 0) parts.push(`${xs.length} word${xs.length > 1 ? "s" : ""}`)\<close>,
  as the list of the zero or one parts it pushes.
\<close>

definition count_part :: "nat \<Rightarrow> string \<Rightarrow> string list" where
  "count_part n word =
     (if n > 0 then [nat_toString n @ '' '' @ word @ (if n > 1 then ''s'' else [])] else [])"

definition build_summary ::
  "GitHubCommit list \<Rightarrow> GitHubRelease list \<Rightarrow> GitHubPR list \<Rightarrow> DocPage list \<Rightarrow> string list
   \<Rightarrow> string" where
  "build_summary cs rs prs ds ns =
     (let parts = count_part (length cs) ''commit''
                @ count_part (length rs) ''release''
                @ count_part (length prs) ''PR''
                @ count_part (length ds) ''doc page''
                @ count_part (length ns) ''release note''
      in if length parts = 0 then ''No updates detected in the last 24 hours.''
         else ''Daily updates: '' @ join '', '' parts @ ''.'')"

section \<open>The renderer\<close>

text \<open>
  A \<^verbatim>\<open>for\<close> loop that appends the lines of each element to \<^verbatim>\<open>md\<close>; the loop throws
  when the rendering of an element does.
\<close>

fun append_each :: "('a \<Rightarrow> string option) \<Rightarrow> 'a list \<Rightarrow> string option" where
  "append_each f [] = Some []"
| "append_each f (x # xs) =
     do { ls \<leftarrow> f x; rest \<leftarrow> append_each f xs; Some (ls @ rest) }"

definition commit_lines :: "js_env \<Rightarrow> GitHubCommit \<Rightarrow> string option" where
  "commit_lines env commit =
     do { iso \<leftarrow> date_toISOString env (new_Date env (JString (author_date commit)));
          Some (''- ['' @ sha commit @ '']('' @ commit_html_url commit @ '') - ''
                  @ message commit @ NL
                @ ''  - by '' @ author_name commit @ '' at '' @ iso @ NL) }"

definition commits_section :: "js_env \<Rightarrow> GitHubCommit list \<Rightarrow> string option" where
  "commits_section env cs =
     (if length cs > 0 then
        do { items \<leftarrow> append_each (commit_lines env) cs;
             Some (''## GitHub Commits ('' @ nat_toString (length cs) @ '')'' @ NL @ NL
                   @ items @ NL) }
      else Some (''## GitHub Commits'' @ NL @ NL @ ''No commits in the last 24 hours.''
                 @ NL @ NL))"

definition release_lines :: "js_env \<Rightarrow> GitHubRelease \<Rightarrow> string option" where
  "release_lines env release =
     do { iso \<leftarrow> date_toISOString env (new_Date env (published_at release));
          Some (''- ['' @ tag_name release @ '']('' @ release_html_url release @ '') - ''
                  @ name release @ NL
                @ ''  - '' @ body release @ NL
                @ ''  - Published: '' @ iso @ NL) }"

definition releases_section :: "js_env \<Rightarrow> GitHubRelease list \<Rightarrow> string option" where
  "releases_section env rs =
     (if length rs > 0 then
        do { items \<leftarrow> append_each (release_lines env) rs;
             Some (''## Releases ('' @ nat_toString (length rs) @ '')'' @ NL @ NL
                   @ items @ NL) }
      else Some (''## Releases'' @ NL @ NL @ ''No new releases in the last 24 hours.''
                 @ NL @ NL))"

definition pr_lines :: "js_env \<Rightarrow> GitHubPR \<Rightarrow> string option" where
  "pr_lines env pr =
     do { iso \<leftarrow> date_toISOString env (new_Date env (merged_at pr));
          Some (''- [#'' @ int_toString (number pr) @ '']('' @ pr_html_url pr @ '') - ''
                  @ title pr @ NL
                @ ''  - Merged: '' @ iso @ NL) }"

definition prs_section :: "js_env \<Rightarrow> GitHubPR list \<Rightarrow> string option" where
  "prs_section env prs =
     (if length prs > 0 then
        do { items \<leftarrow> append_each (pr_lines env) prs;
             Some (''## Merged Pull Requests ('' @ nat_toString (length prs) @ '')'' @ NL @ NL
                   @ items @ NL) }
      else Some (''## Merged Pull Requests'' @ NL @ NL
                 @ ''No PRs merged in the last 24 hours.'' @ NL @ NL))"

definition doc_line :: "DocPage \<Rightarrow> string" where
  "doc_line doc = ''- ['' @ doc_title doc @ '']('' @ url doc @ '')'' @ NL"

definition docs_section :: "DocPage list \<Rightarrow> string" where
  "docs_section ds =
     (if length ds > 0 then
        ''## Documentation Pages ('' @ nat_toString (length ds) @ '')'' @ NL @ NL
        @ ''*Current documentation pages available:'' @ NL @ NL
        @ concat (map doc_line (take 20 ds))
        @ (if length ds > 20
           then NL @ ''*... and '' @ nat_toString (length ds - 20) @ '' more pages*'' @ NL
           else [])
        @ NL
      else [])"

definition note_line :: "string \<Rightarrow> string" where
  "note_line note = ''- '' @ note @ NL"

definition notes_section :: "string list \<Rightarrow> string" where
  "notes_section ns =
     (if length ns > 0 then
        ''## Platform Release Notes'' @ NL @ NL
        @ concat (map note_line (take 10 ns))
        @ (if length ns > 10
           then NL @ ''*... and '' @ nat_toString (length ns - 10) @ '' more entries*'' @ NL
           else [])
        @ NL
      else [])"

definition footer :: string where
  "footer =
     ''---'' @ NL
     @ ''*Generated by [claude-code-anthropic-docs](https://github.com/ebowwa/claude-code-anthropic-docs) daily automation*'' @ NL
     @ ''*Data sourced from [anthropics/claude-code](https://github.com/anthropics/claude-code), [code.claude.com](https://code.claude.com/docs), and [platform.claude.com](https://platform.claude.com)*'' @ NL"

text \<open>
  \<^verbatim>\<open>generateMarkdown\<close>. The clock is the sequence of readings that successive
  \<^verbatim>\<open>new Date()\<close> calls of one invocation would get; the function takes one, for the
  line \<^verbatim>\<open>**Generated:**\<close>. The result is \<open>None\<close> when a \<^verbatim>\<open>toISOString\<close> throws.
  The first statement, \<^verbatim>\<open>getDateParts(new Date(report.date))\<close>, cannot throw and
  its three results are never read, so it has no part in the value.
\<close>

definition generateMarkdown :: "js_env \<Rightarrow> (nat \<Rightarrow> int) \<Rightarrow> DailyReport \<Rightarrow> string option" where
  "generateMarkdown env clock report =
     do { generated \<leftarrow> date_toISOString env (Some (clock 0));
          cs \<leftarrow> commits_section env (commits (github report));
          rs \<leftarrow> releases_section env (releases (github report));
          ps \<leftarrow> prs_section env (pullRequests (github report));
          Some (''# Anthropic Claude Code Documentation Update - '' @ date report @ NL @ NL
                @ ''**Generated:** '' @ generated @ NL @ NL
                @ ''## Summary'' @ NL @ NL
                @ summary report @ NL @ NL
                @ cs @ rs @ ps
                @ docs_section (docs report)
                @ notes_section (releaseNotes report)
                @ footer) }"

section \<open>The writer and the run\<close>

text \<open>
  The file system is a store from paths to contents. An \<^verbatim>\<open>async\<close> function that
  throws rejects its promise: the result is \<open>Inl\<close> of the error.
\<close>

type_synonym file_system = "string \<rightharpoonup> string"

datatype js_error = RangeError | ReferenceError

text \<open>
  The path that \<^verbatim>\<open>saveReport\<close> derives in its first three statements:
  \<^verbatim>\<open>const dir = `daily/${year}/${month}`\<close> and
  \<^verbatim>\<open>const filepath = `${dir}/${day}.md`\<close>.
\<close>

definition report_path :: "js_env \<Rightarrow> js_date \<Rightarrow> string" where
  "report_path env d =
     (case getDateParts env d of (year, month, day) \<Rightarrow>
        (let dir = ''daily/'' @ year @ ''/'' @ month
         in dir @ ''/'' @ day @ ''.md''))"

text \<open>
  \<^verbatim>\<open>saveReport\<close>. After the path is derived, the statement
  \<^verbatim>\<open>await $`mkdir -p ${dir}`\<close> evaluates the identifier \<^verbatim>\<open>$\<close> as the tag of the
  template. The file has no import and declares no \<^verbatim>\<open>$\<close>, and the host has no global
  of that name (its shell is an export of the module \<^verbatim>\<open>bun\<close>), so the evaluation
  throws a ReferenceError. The function rejects there: \<^verbatim>\<open>mkdir\<close> does not run,
  \<^verbatim>\<open>Bun.write\<close> and \<^verbatim>\<open>return filepath\<close> are not reached, and the file system is as
  it was.
\<close>

definition saveReport ::
  "js_env \<Rightarrow> file_system \<Rightarrow> string \<Rightarrow> js_date \<Rightarrow> file_system \<times> (js_error + string)" where
  "saveReport env fs markdown d =
     (let filepath = report_path env d in (fs, Inl ReferenceError))"

text \<open>
  The inputs of one run: the readings of the clock (\<open>today\<close> for \<^verbatim>\<open>new Date()\<close> in
  \<^verbatim>\<open>main\<close>, one \<^verbatim>\<open>Date.now()\<close> in each of the two filtering fetchers, the readings of
  the documentation loop and of the renderer) and what the five requests come back with.
  The reading of the commit fetcher only goes into its request.
\<close>

record clock_readings =
  today :: int
  releases_now :: int
  prs_now :: int
  docs_clock :: "nat \<Rightarrow> int"
  render_clock :: "nat \<Rightarrow> int"

record responses =
  commits_response :: "GitHubCommit list option fetched"
  releases_response :: "raw_release list option fetched"
  prs_response :: "GitHubPR list option fetched"
  docs_response :: "string fetched"
  notes_response :: "string fetched"

text \<open>
  The part of \<^verbatim>\<open>main\<close> from \<^verbatim>\<open>Promise.all\<close> to the object \<^verbatim>\<open>report\<close>: the five
  fetchers, the summary and the report for the day \<open>dateStr\<close>.
\<close>

definition assemble_report ::
  "js_env \<Rightarrow> clock_readings \<Rightarrow> responses \<Rightarrow> string \<Rightarrow> DailyReport" where
  "assemble_report env clk resp dateStr =
     (let cs = fetchRecentCommits (commits_response resp);
          rs = fetchRecentReleases env (releases_now clk) (releases_response resp);
          prs = fetchRecentPRs env (prs_now clk) (prs_response resp);
          ds = checkDocumentationUpdates env (docs_clock clk) (docs_response resp);
          ns = checkReleaseNotes (notes_response resp)
      in \<lparr> date = dateStr,
           summary = build_summary cs rs prs ds ns,
           github = \<lparr> commits = cs, releases = rs, pullRequests = prs \<rparr>,
           docs = ds,
           releaseNotes = ns \<rparr>)"

text \<open>
  \<^verbatim>\<open>main\<close>: the file system after the run, and \<open>Inr ()\<close> when the run completes or
  \<open>Inl\<close> of the error it rejects with (which \<^verbatim>\<open>main().catch(console.error)\<close> prints).
\<close>

definition main ::
  "js_env \<Rightarrow> clock_readings \<Rightarrow> responses \<Rightarrow> file_system \<Rightarrow> file_system \<times> (js_error + unit)" where
  "main env clk resp fs =
     (case formatDate env (Some (today clk)) of
        None \<Rightarrow> (fs, Inl RangeError)
      | Some dateStr \<Rightarrow>
          (case generateMarkdown env (render_clock clk) (assemble_report env clk resp dateStr) of
             None \<Rightarrow> (fs, Inl RangeError)
           | Some markdown \<Rightarrow>
               (case saveReport env fs markdown (Some (today clk)) of
                  (fs', Inl e) \<Rightarrow> (fs', Inl e)
                | (fs', Inr filepath) \<Rightarrow> (fs', Inr ()))))"

section \<open>Sample inputs\<close>

text \<open>
  A host for the concrete runs below: its parser and its formatter know two instants,
  10:00 UTC on 2025-03-07 and noon UTC on 2025-03-06, every other time value is shown as
  noon UTC on 2025-03-07, and its calendar shows 7 March 2025. Then a documentation index
  with four anchors, two of them to the same page.
\<close>

definition sample_env :: js_env where
  "sample_env =
     \<lparr> parseDate = (\<lambda>s. if s = ''2025-03-07T10:00:00Z'' then Some 1741341600000
                         else if s = ''2025-03-06T12:00:00Z'' then Some 1741262400000
                         else None),
       toISOString = (\<lambda>t. if t = 1741341600000 then ''2025-03-07T10:00:00.000Z''
                           else if t = 1741262400000 then ''2025-03-06T12:00:00.000Z''
                           else ''2025-03-07T12:00:00.000Z''),
       getFullYear = (\<lambda>t. 2025),
       getMonth = (\<lambda>t. 2),
       getDate = (\<lambda>t. 7) \<rparr>"

definition sample_html :: string where
  "sample_html =
     ''<a href='' @ [DQ] @ ''/docs/en/overview'' @ [DQ] @ ''>Overview</a>''
     @ ''<a href='' @ [DQ] @ ''/docs/en/hooks/'' @ [DQ] @ ''>Hooks</a>''
     @ ''<a href='' @ [DQ] @ ''/docs/en/overview'' @ [DQ] @ ''>Again</a>''
     @ ''<a href='' @ [DQ] @ ''/docs/quickstart'' @ [DQ] @ ''>Start</a>''"

text \<open>Twenty-five documentation pages, \<^verbatim>\<open>page1\<close> to \<^verbatim>\<open>page25\<close>.\<close>

definition sample_docs :: "DocPage list" where
  "sample_docs =
     map (\<lambda>k. \<lparr> doc_title = ''page'' @ nat_toString k,
                url = DOCS_BASE_URL @ ''/en/page'' @ nat_toString k,
                lastUpdated = ''2025-03-07T12:00:00.000Z'' \<rparr>) [1..<26]"

text \<open>A report with one commit, and two clocks that agree on their first reading only.\<close>

definition sample_report :: DailyReport where
  "sample_report =
     \<lparr> date = ''2025-03-07'',
       summary = ''Daily updates: 1 commit.'',
       github = \<lparr> commits = [\<lparr> sha = ''0a1b2c3'', message = ''Fix typo'',
                                author_name = ''Ada'', author_date = ''2025-03-07T10:00:00Z'',
                                commit_html_url = ''https://github.com/anthropics/claude-code/commit/0a1b2c3'' \<rparr>],
                    releases = [], pullRequests = [] \<rparr>,
       docs = [], releaseNotes = [] \<rparr>"

definition slow_clock :: "nat \<Rightarrow> int" where
  "slow_clock k = 1741348800000 + int k"

definition fast_clock :: "nat \<Rightarrow> int" where
  "fast_clock k = 1741348800000 + 5000 * int k"

text \<open>
  The readings of a run at noon UTC on 2025-03-07; a run in which every request fails, two
  by rejection and three with the statuses 500, 403 and 404; and a run that finds one
  commit and two releases inside the window.
\<close>

definition failing_responses :: responses where
  "failing_responses =
     \<lparr> commits_response = Rejected,
       releases_response = Response 500 None,
       prs_response = Response 403 (Some []),
       docs_response = Response 404 ''Not Found'',
       notes_response = Rejected \<rparr>"

definition sample_clock :: clock_readings where
  "sample_clock =
     \<lparr> today = 1741348800000, releases_now = 1741348800000, prs_now = 1741348800000,
       docs_clock = slow_clock, render_clock = slow_clock \<rparr>"


section \<open>The words of the specification\<close>

text \<open>The substring of a relative path after its last \<^verbatim>\<open>/\<close>: the whole path when it has none.\<close>

definition after_last_slash :: "string \<Rightarrow> string" where
  "after_last_slash link = rev (takeWhile (\<lambda>c. c \<noteq> CHR ''/'') (rev link))"

text \<open>
  A fetcher fails when its request is rejected (a network failure) or comes back with a
  status that is not a success.
\<close>

definition failed :: "'a fetched \<Rightarrow> bool" where
  "failed response = (case response of Rejected \<Rightarrow> True | Response status payload \<Rightarrow> \<not> ok status)"

text \<open>
  The text of a report with no activity in any category, as the renderer lays it out:
  the title with the day, the generation line, the summary and the three fixed sentences.
\<close>

definition empty_report_text :: "string \<Rightarrow> string \<Rightarrow> string \<Rightarrow> string" where
  "empty_report_text day generated line =
     ''# Anthropic Claude Code Documentation Update - '' @ day @ NL @ NL
     @ ''**Generated:** '' @ generated @ NL @ NL
     @ ''## Summary'' @ NL @ NL
     @ line @ NL @ NL
     @ ''## GitHub Commits'' @ NL @ NL @ ''No commits in the last 24 hours.'' @ NL @ NL
     @ ''## Releases'' @ NL @ NL @ ''No new releases in the last 24 hours.'' @ NL @ NL
     @ ''## Merged Pull Requests'' @ NL @ NL @ ''No PRs merged in the last 24 hours.'' @ NL @ NL
     @ footer"

section \<open>Properties of the two window filters\<close>

lemma pr_record_id: "pr_record pr = pr"
  by (simp add: pr_record_def)

lemma date_gt_Some_iff: "date_gt d (Some c) \<longleftrightarrow> (\<exists>t. d = Some t \<and> c < t)"
  by (cases d) auto

lemma release_recent_iff:
  "parseDate env [] = None \<Longrightarrow>
   release_recent env now r \<longleftrightarrow>
     (\<exists>s t. raw_published_at r = JString s \<and> parseDate env s = Some t \<and> now - 86400000 < t)"
  by (cases "raw_published_at r")
     (auto simp: release_recent_def oneDayAgo_def DAY_MS_def date_gt_Some_iff)

lemma pr_recent_iff:
  "parseDate env [] = None \<Longrightarrow>
   pr_recent env now pr \<longleftrightarrow>
     (\<exists>s t. merged_at pr = JString s \<and> parseDate env s = Some t \<and> now - 86400000 < t)"
  by (cases "merged_at pr")
     (auto simp: pr_recent_def oneDayAgo_def DAY_MS_def date_gt_Some_iff)

text \<open>
  Claim C1. The body of a mapped release is the first 200 characters of the raw body and
  the marker \<^verbatim>\<open>...\<close> when the raw body is a string, and the empty string when the raw
  body is absent. The second half is what the fallback \<^verbatim>\<open>|| ""\<close> of the source is
  there for, but the fallback is never taken: the sum to its left is formed first, and
  with a body that is null or undefined it is the non-empty string
  \<^verbatim>\<open>undefined...\<close>. The theorem runs the mapping on a release whose body is null
  and on one whose body is undefined.
\<close>

theorem release_body_absent_is_undefined_marker:
  "body (release_record \<lparr> raw_tag_name = ''v2.0.1'', raw_name = JString ''2.0.1'',
       raw_html_url = ''https://github.com/anthropics/claude-code/releases/tag/v2.0.1'',
       raw_published_at = JString ''2025-03-07T10:00:00Z'', raw_body = JNull \<rparr>)
     = ''undefined...''
   \<and> body (release_record \<lparr> raw_tag_name = ''v2.0.1'', raw_name = JString ''2.0.1'',
       raw_html_url = ''https://github.com/anthropics/claude-code/releases/tag/v2.0.1'',
       raw_published_at = JString ''2025-03-07T10:00:00Z'', raw_body = JUndefined \<rparr>)
     = ''undefined...''"
  by (simp add: release_record_def or_string_def plus_string_def opt_substring_def)

text \<open>
  Claim C9. When the raw body of a release is a string, the mapped body is its first 200
  characters followed by \<^verbatim>\<open>...\<close>: it always ends with the marker, also when the raw
  body is shorter than 200 characters, and the empty body maps to the marker alone.
\<close>

theorem release_body_present:
  assumes "raw_body r = JString s"
  shows "body (release_record r) = take 200 s @ ''...''
       \<and> (\<exists>p. body (release_record r) = p @ ''...'')
       \<and> (s = [] \<longrightarrow> body (release_record r) = ''...'')"
  using assms
  by (simp add: release_record_def or_string_def plus_string_def opt_substring_def substring_def)

theorem release_body_present_witness:
  "raw_body \<lparr> raw_tag_name = ''v1'', raw_name = JNull, raw_html_url = ''u'',
              raw_published_at = JNull, raw_body = JString [] \<rparr> = JString []
   \<and> body (release_record \<lparr> raw_tag_name = ''v1'', raw_name = JNull, raw_html_url = ''u'',
              raw_published_at = JNull, raw_body = JString [] \<rparr>) = ''...''
   \<and> body (release_record \<lparr> raw_tag_name = ''v1'', raw_name = JNull, raw_html_url = ''u'',
              raw_published_at = JNull, raw_body = JString ''Fixes'' \<rparr>) = ''Fixes...''"
  using release_body_present [of "\<lparr> raw_tag_name = ''v1'', raw_name = JNull, raw_html_url = ''u'',
              raw_published_at = JNull, raw_body = JString [] \<rparr>" "[]"]
        release_body_present [of "\<lparr> raw_tag_name = ''v1'', raw_name = JNull, raw_html_url = ''u'',
              raw_published_at = JNull, raw_body = JString ''Fixes'' \<rparr>" "''Fixes''"]
  by simp

text \<open>
  Claim C3. On a successful response the release fetcher returns one record for each raw
  entry whose publish timestamp is present and denotes an instant strictly after
  \<open>now - 24h\<close>, and for no other entry, in the order of the response; the record of an
  entry carries the tag, the link and the publish timestamp of that entry. The host's
  parser is assumed to reject the empty string, as \<^verbatim>\<open>Date.parse\<close> does.
\<close>

theorem releases_window:
  assumes "ok status" and "parseDate env [] = None"
  shows "fetchRecentReleases env now (Response status (Some rs))
         = map release_record
             (filter (\<lambda>r. \<exists>s t. raw_published_at r = JString s \<and> parseDate env s = Some t
                                \<and> now - 86400000 < t) rs)
       \<and> map tag_name (fetchRecentReleases env now (Response status (Some rs)))
         = map raw_tag_name
             (filter (\<lambda>r. \<exists>s t. raw_published_at r = JString s \<and> parseDate env s = Some t
                                \<and> now - 86400000 < t) rs)
       \<and> map release_html_url (fetchRecentReleases env now (Response status (Some rs)))
         = map raw_html_url
             (filter (\<lambda>r. \<exists>s t. raw_published_at r = JString s \<and> parseDate env s = Some t
                                \<and> now - 86400000 < t) rs)
       \<and> map published_at (fetchRecentReleases env now (Response status (Some rs)))
         = map raw_published_at
             (filter (\<lambda>r. \<exists>s t. raw_published_at r = JString s \<and> parseDate env s = Some t
                                \<and> now - 86400000 < t) rs)"
proof -
  have "filter (release_recent env now) rs
        = filter (\<lambda>r. \<exists>s t. raw_published_at r = JString s \<and> parseDate env s = Some t
                                \<and> now - 86400000 < t) rs"
    by (rule filter_cong) (simp_all add: release_recent_iff [OF assms(2)])
  with assms(1)
  have out: "fetchRecentReleases env now (Response status (Some rs))
         = map release_record
             (filter (\<lambda>r. \<exists>s t. raw_published_at r = JString s \<and> parseDate env s = Some t
                                \<and> now - 86400000 < t) rs)"
    by (simp add: fetchRecentReleases_def)
  have "tag_name \<circ> release_record = raw_tag_name"
    and "release_html_url \<circ> release_record = raw_html_url"
    and "published_at \<circ> release_record = raw_published_at"
    by (simp_all add: fun_eq_iff release_record_def)
  then show ?thesis
    unfolding out by (simp only: map_map simp_thms)
qed

text \<open>
  At noon on 2025-03-07, of four releases published two hours before (twice), exactly 24
  hours before and never, the first two alone are kept, each with its own tag, link and
  timestamp.
\<close>

theorem releases_window_witness:
  "ok 200 \<and> parseDate sample_env [] = None
   \<and> fetchRecentReleases sample_env 1741348800000 (Response 200 (Some
        [\<lparr> raw_tag_name = ''v3'', raw_name = JNull, raw_html_url = ''u3'',
            raw_published_at = JString ''2025-03-07T10:00:00Z'', raw_body = JString ''Fixes'' \<rparr>,
         \<lparr> raw_tag_name = ''v2.1'', raw_name = JString ''Two point one'', raw_html_url = ''u21'',
            raw_published_at = JString ''2025-03-07T10:00:00Z'', raw_body = JString [] \<rparr>,
         \<lparr> raw_tag_name = ''v2'', raw_name = JNull, raw_html_url = ''u2'',
            raw_published_at = JString ''2025-03-06T12:00:00Z'', raw_body = JNull \<rparr>,
         \<lparr> raw_tag_name = ''v1'', raw_name = JNull, raw_html_url = ''u1'',
            raw_published_at = JNull, raw_body = JNull \<rparr>]))
     = [\<lparr> tag_name = ''v3'', name = ''v3'', release_html_url = ''u3'',
          published_at = JString ''2025-03-07T10:00:00Z'', body = ''Fixes...'' \<rparr>,
        \<lparr> tag_name = ''v2.1'', name = ''Two point one'', release_html_url = ''u21'',
          published_at = JString ''2025-03-07T10:00:00Z'', body = ''...'' \<rparr>]"
proof -
  have h1: "ok 200" by (simp add: ok_def)
  have h2: "parseDate sample_env [] = None" by (simp add: sample_env_def)
  show ?thesis
    using releases_window [OF h1 h2, of 1741348800000, THEN conjunct1] h1 h2
    by (simp add: sample_env_def release_record_def or_default_def or_string_def
          plus_string_def opt_substring_def substring_def)
qed

text \<open>
  Claim C2. On a successful response the change-request fetcher returns exactly the raw
  entries whose merge timestamp is non-null and denotes an instant strictly after
  \<open>now - 24h\<close>; an entry with a null merge timestamp and an entry merged exactly at
  \<open>now - 24h\<close> are not in the output. The host's parser is assumed to reject the empty
  string, as \<^verbatim>\<open>Date.parse\<close> does.
\<close>

theorem prs_window:
  assumes "ok status" and "parseDate env [] = None"
  shows "fetchRecentPRs env now (Response status (Some prs))
         = map pr_record
             (filter (\<lambda>pr. \<exists>s t. merged_at pr = JString s \<and> parseDate env s = Some t
                                 \<and> now - 86400000 < t) prs)
       \<and> (\<forall>pr \<in> set prs. merged_at pr = JNull \<longrightarrow>
             pr_record pr \<notin> set (fetchRecentPRs env now (Response status (Some prs))))
       \<and> (\<forall>pr \<in> set prs. \<forall>s. merged_at pr = JString s
               \<and> parseDate env s = Some (now - 86400000) \<longrightarrow>
             pr_record pr \<notin> set (fetchRecentPRs env now (Response status (Some prs))))"
proof -
  have eq: "filter (pr_recent env now) prs
        = filter (\<lambda>pr. \<exists>s t. merged_at pr = JString s \<and> parseDate env s = Some t
                                 \<and> now - 86400000 < t) prs"
    by (rule filter_cong) (simp_all add: pr_recent_iff [OF assms(2)])
  have out: "fetchRecentPRs env now (Response status (Some prs))
             = map pr_record (filter (pr_recent env now) prs)"
    using assms(1) by (simp add: fetchRecentPRs_def)
  have null: "merged_at pr = JNull \<Longrightarrow> \<not> pr_recent env now pr" for pr
    by (simp add: pr_recent_def)
  have boundary: "merged_at pr = JString s \<Longrightarrow> parseDate env s = Some (now - 86400000)
                  \<Longrightarrow> \<not> pr_recent env now pr" for pr s
    by (simp add: pr_recent_def oneDayAgo_def DAY_MS_def)
  have member: "pr_record pr \<in> set (fetchRecentPRs env now (Response status (Some prs)))
                \<Longrightarrow> pr_recent env now pr" for pr
    unfolding out by (auto simp: pr_record_id)
  show ?thesis
  proof (intro conjI ballI allI impI)
    show "fetchRecentPRs env now (Response status (Some prs))
          = map pr_record
              (filter (\<lambda>pr. \<exists>s t. merged_at pr = JString s \<and> parseDate env s = Some t
                                  \<and> now - 86400000 < t) prs)"
      using eq out by simp
  next
    fix pr :: GitHubPR
    assume "merged_at pr = JNull"
    with null member
    show "pr_record pr \<notin> set (fetchRecentPRs env now (Response status (Some prs)))"
      by blast
  next
    fix pr :: GitHubPR and s
    assume "merged_at pr = JString s \<and> parseDate env s = Some (now - 86400000)"
    with boundary member
    show "pr_record pr \<notin> set (fetchRecentPRs env now (Response status (Some prs)))"
      by blast
  qed
qed

text \<open>
  At noon on 2025-03-07, of three closed requests merged two hours before, merged exactly
  24 hours before and closed without a merge, the first alone is kept.
\<close>

theorem prs_window_witness:
  "ok 200 \<and> parseDate sample_env [] = None
   \<and> fetchRecentPRs sample_env 1741348800000 (Response 200 (Some
        [\<lparr> number = 12, title = ''Fix typo'', pr_html_url = ''u12'',
            merged_at = JString ''2025-03-07T10:00:00Z'' \<rparr>,
         \<lparr> number = 11, title = ''Add flag'', pr_html_url = ''u11'',
            merged_at = JString ''2025-03-06T12:00:00Z'' \<rparr>,
         \<lparr> number = 10, title = ''Rejected'', pr_html_url = ''u10'', merged_at = JNull \<rparr>]))
     = [\<lparr> number = 12, title = ''Fix typo'', pr_html_url = ''u12'',
            merged_at = JString ''2025-03-07T10:00:00Z'' \<rparr>]"
proof -
  have h1: "ok 200" by (simp add: ok_def)
  have h2: "parseDate sample_env [] = None" by (simp add: sample_env_def)
  show ?thesis
    using prs_window [OF h1 h2, of 1741348800000, THEN conjunct1] h1 h2
    by (simp add: sample_env_def pr_record_id)
qed

section \<open>Titles of documentation pages\<close>

lemma split_on_not_Nil: "split_on c s \<noteq> []"
  by (induction s) (auto split: list.splits)

lemma split_on_Cons:
  "split_on c (x # xs) =
     (if x = c then [] # split_on c xs else (x # hd (split_on c xs)) # tl (split_on c xs))"
  using split_on_not_Nil [of c xs] by (cases "split_on c xs") simp_all

lemma split_on_no_sep: "c \<notin> set s \<Longrightarrow> split_on c s = [s]"
  by (induction s) (auto simp: split_on_Cons simp del: split_on.simps(2))

lemma split_on_sep: "c \<in> set s \<Longrightarrow> tl (split_on c s) \<noteq> []"
  by (induction s) (auto simp: split_on_not_Nil split_on_Cons simp del: split_on.simps(2))

lemma takeWhile_snoc:
  "takeWhile P (ys @ [z]) = (if \<forall>y\<in>set ys. P y then ys @ takeWhile P [z] else takeWhile P ys)"
  by (induction ys) auto

lemma last_split_on: "last (split_on c s) = rev (takeWhile (\<lambda>x. x \<noteq> c) (rev s))"
proof (induction s)
  case Nil
  then show ?case by simp
next
  case (Cons x xs)
  show ?case
  proof (cases "x = c")
    case True
    then show ?thesis
      using Cons.IH
      by (auto simp: split_on_not_Nil takeWhile_snoc split_on_Cons simp del: split_on.simps(2))
  next
    case False
    show ?thesis
    proof (cases "c \<in> set xs")
      case True
      have "last (tl (split_on c xs)) = last (split_on c xs)"
        using split_on_sep [OF True] by (simp add: last_tl)
      with False True Cons.IH split_on_sep [OF True] show ?thesis
        by (auto simp: takeWhile_snoc split_on_Cons simp del: split_on.simps(2))
    next
      case no: False
      with False show ?thesis
        by (auto simp: split_on_no_sep takeWhile_snoc)
    qed
  qed
qed

lemma link_title_eq:
  "link_title link = (if after_last_slash link = [] then link else after_last_slash link)"
  by (cases "split_on (CHR ''/'') link")
     (auto simp: link_title_def or_default_def pop_def after_last_slash_def split_on_not_Nil
           last_split_on [symmetric] simp del: split_on.simps)

lemma after_last_slash_no_slash:
  assumes "CHR ''/'' \<notin> set link"
  shows "after_last_slash link = link"
proof -
  have "takeWhile (\<lambda>c. c \<noteq> CHR ''/'') (rev link) = rev link"
    using assms by (auto simp: takeWhile_eq_all_conv)
  then show ?thesis
    unfolding after_last_slash_def by (simp only: rev_rev_ident)
qed

lemma after_last_slash_trailing: "after_last_slash (p @ ''/'') = []"
  by (simp add: after_last_slash_def)

lemma doc_titles:
  "map (doc_title \<circ> doc_page env clock) (enumerate n links) = map link_title links"
  by (induction links arbitrary: n) (simp_all add: doc_page_def)

text \<open>
  Claim C10. The title of the record of a relative path is the substring after the last
  \<^verbatim>\<open>/\<close> of the path; when that substring is empty, as for a path that ends with
  \<^verbatim>\<open>/\<close>, the title is the whole path; a path with no \<^verbatim>\<open>/\<close> is its own title.
  This holds of every record the fetcher returns, in the order of the deduplicated paths.
\<close>

theorem doc_title_last_segment:
  assumes "ok status"
  shows "map doc_title (checkDocumentationUpdates env clock (Response status html))
         = map (\<lambda>link. if after_last_slash link = [] then link else after_last_slash link)
             (foldl set_add [] (links_from html))
       \<and> doc_title (doc_page env clock (k, link))
         = (if after_last_slash link = [] then link else after_last_slash link)
       \<and> doc_title (doc_page env clock (k, p @ ''/'')) = p @ ''/''
       \<and> (CHR ''/'' \<notin> set link \<longrightarrow> doc_title (doc_page env clock (k, link)) = link)"
proof (intro conjI impI)
  show "map doc_title (checkDocumentationUpdates env clock (Response status html))
         = map (\<lambda>link. if after_last_slash link = [] then link else after_last_slash link)
             (foldl set_add [] (links_from html))"
    using assms by (simp add: checkDocumentationUpdates_def doc_titles link_title_eq)
  show "doc_title (doc_page env clock (k, link))
         = (if after_last_slash link = [] then link else after_last_slash link)"
    by (simp add: doc_page_def link_title_eq)
  show "doc_title (doc_page env clock (k, p @ ''/'')) = p @ ''/''"
    by (simp add: doc_page_def link_title_eq after_last_slash_trailing)
  show "doc_title (doc_page env clock (k, link)) = link" if "CHR ''/'' \<notin> set link"
    using that by (simp add: doc_page_def link_title_eq after_last_slash_no_slash)
qed

text \<open>
  The sample index yields three pages: \<^verbatim>\<open>en/overview\<close> once, with the title
  \<^verbatim>\<open>overview\<close>; \<^verbatim>\<open>en/hooks/\<close>, whose title is the whole path; and
  \<^verbatim>\<open>quickstart\<close>.
\<close>

theorem doc_title_last_segment_witness:
  "ok 200
   \<and> map doc_title (checkDocumentationUpdates sample_env (\<lambda>k. 1741348800000) (Response 200 sample_html))
     = [''overview'', ''en/hooks/'', ''quickstart'']"
proof -
  have h: "ok 200" by (simp add: ok_def)
  have l: "foldl set_add [] (links_from sample_html) = [''en/overview'', ''en/hooks/'', ''quickstart'']"
    by code_simp
  have a: "after_last_slash ''en/overview'' = ''overview''"
          "after_last_slash ''en/hooks/'' = []"
          "after_last_slash ''quickstart'' = ''quickstart''"
    by (simp_all add: after_last_slash_def)
  show ?thesis
    using doc_title_last_segment [OF h, of sample_env "\<lambda>k. 1741348800000" sample_html, THEN conjunct1] h
    by (simp add: l a)
qed

section \<open>The summary of a run\<close>

lemma count_part_cases:
  "count_part 0 word = []"
  "count_part (Suc 0) word = [''1 '' @ word]"
  "count_part 2 word = [''2 '' @ word @ ''s'']"
  by (simp_all add: count_part_def nat_toString.simps digit_char_def)

lemma build_summary_empty:
  "build_summary [] [] [] [] [] = ''No updates detected in the last 24 hours.''"
  by (simp add: build_summary_def count_part_cases)

lemma assemble_report_summary:
  "summary (assemble_report env clk resp dateStr)
   = build_summary
       (fetchRecentCommits (commits_response resp))
       (fetchRecentReleases env (releases_now clk) (releases_response resp))
       (fetchRecentPRs env (prs_now clk) (prs_response resp))
       (checkDocumentationUpdates env (docs_clock clk) (docs_response resp))
       (checkReleaseNotes (notes_response resp))"
  by (simp add: assemble_report_def Let_def)



section \<open>The documentation section of the rendering\<close>

text \<open>
  Claim C6. The rendering of a report has the documentation section right before the
  release-note section and the footer. With more than 20 documentation pages the section
  has one item line \<^verbatim>\<open>- [title](url)\<close> for each of the first 20 pages, in order, and
  then the note \<^verbatim>\<open>*... and N more pages*\<close> with \<open>N\<close> the count minus 20; with 1 to 20
  pages it has the item line of every page and no note; with no page the section is
  empty, so nothing of it is in the rendering.
\<close>

theorem docs_section_rendered:
  assumes "generateMarkdown env clock report = Some md"
  shows "(\<exists>before. md = before @ docs_section (docs report)
                         @ notes_section (releaseNotes report) @ footer)
       \<and> (length (docs report) > 20 \<longrightarrow>
            docs_section (docs report)
            = ''## Documentation Pages ('' @ nat_toString (length (docs report)) @ '')'' @ NL @ NL
              @ ''*Current documentation pages available:'' @ NL @ NL
              @ concat (map (\<lambda>doc. ''- ['' @ doc_title doc @ '']('' @ url doc @ '')'' @ NL)
                          (take 20 (docs report)))
              @ NL @ ''*... and '' @ nat_toString (length (docs report) - 20)
              @ '' more pages*'' @ NL
              @ NL)
       \<and> (0 < length (docs report) \<and> length (docs report) \<le> 20 \<longrightarrow>
            docs_section (docs report)
            = ''## Documentation Pages ('' @ nat_toString (length (docs report)) @ '')'' @ NL @ NL
              @ ''*Current documentation pages available:'' @ NL @ NL
              @ concat (map (\<lambda>doc. ''- ['' @ doc_title doc @ '']('' @ url doc @ '')'' @ NL)
                          (docs report))
              @ NL)
       \<and> (length (docs report) = 0 \<longrightarrow> docs_section (docs report) = [])"
proof (intro conjI)
  show "\<exists>before. md = before @ docs_section (docs report)
                         @ notes_section (releaseNotes report) @ footer"
    using assms by (auto simp: generateMarkdown_def split: bind_splits)
qed (simp_all add: docs_section_def doc_line_def [abs_def])

lemma sample_docs_length: "length sample_docs = 25"
  by (simp add: sample_docs_def)

lemma sample_docs_items:
  "concat (map (\<lambda>doc. ''- ['' @ doc_title doc @ '']('' @ url doc @ '')'' @ NL)
             (take 20 sample_docs))
   = ''- [page1](https://code.claude.com/docs/en/page1)'' @ NL
     @ ''- [page2](https://code.claude.com/docs/en/page2)'' @ NL
     @ ''- [page3](https://code.claude.com/docs/en/page3)'' @ NL
     @ ''- [page4](https://code.claude.com/docs/en/page4)'' @ NL
     @ ''- [page5](https://code.claude.com/docs/en/page5)'' @ NL
     @ ''- [page6](https://code.claude.com/docs/en/page6)'' @ NL
     @ ''- [page7](https://code.claude.com/docs/en/page7)'' @ NL
     @ ''- [page8](https://code.claude.com/docs/en/page8)'' @ NL
     @ ''- [page9](https://code.claude.com/docs/en/page9)'' @ NL
     @ ''- [page10](https://code.claude.com/docs/en/page10)'' @ NL
     @ ''- [page11](https://code.claude.com/docs/en/page11)'' @ NL
     @ ''- [page12](https://code.claude.com/docs/en/page12)'' @ NL
     @ ''- [page13](https://code.claude.com/docs/en/page13)'' @ NL
     @ ''- [page14](https://code.claude.com/docs/en/page14)'' @ NL
     @ ''- [page15](https://code.claude.com/docs/en/page15)'' @ NL
     @ ''- [page16](https://code.claude.com/docs/en/page16)'' @ NL
     @ ''- [page17](https://code.claude.com/docs/en/page17)'' @ NL
     @ ''- [page18](https://code.claude.com/docs/en/page18)'' @ NL
     @ ''- [page19](https://code.claude.com/docs/en/page19)'' @ NL
     @ ''- [page20](https://code.claude.com/docs/en/page20)'' @ NL"
  by code_simp

text \<open>
  The sample report with 25 pages renders, and its text ends with the item lines of the
  pages 1 to 20, the note \<^verbatim>\<open>*... and 5 more pages*\<close> and the footer.
\<close>

theorem docs_section_rendered_witness:
  "\<exists>md before.
      generateMarkdown sample_env slow_clock (sample_report \<lparr> docs := sample_docs \<rparr>) = Some md
    \<and> length (docs (sample_report \<lparr> docs := sample_docs \<rparr>)) = 25
    \<and> md = before
           @ (''## Documentation Pages (25)'' @ NL @ NL
              @ ''*Current documentation pages available:'' @ NL @ NL
              @ ''- [page1](https://code.claude.com/docs/en/page1)'' @ NL
              @ ''- [page2](https://code.claude.com/docs/en/page2)'' @ NL
              @ ''- [page3](https://code.claude.com/docs/en/page3)'' @ NL
              @ ''- [page4](https://code.claude.com/docs/en/page4)'' @ NL
              @ ''- [page5](https://code.claude.com/docs/en/page5)'' @ NL
              @ ''- [page6](https://code.claude.com/docs/en/page6)'' @ NL
              @ ''- [page7](https://code.claude.com/docs/en/page7)'' @ NL
              @ ''- [page8](https://code.claude.com/docs/en/page8)'' @ NL
              @ ''- [page9](https://code.claude.com/docs/en/page9)'' @ NL
              @ ''- [page10](https://code.claude.com/docs/en/page10)'' @ NL
              @ ''- [page11](https://code.claude.com/docs/en/page11)'' @ NL
              @ ''- [page12](https://code.claude.com/docs/en/page12)'' @ NL
              @ ''- [page13](https://code.claude.com/docs/en/page13)'' @ NL
              @ ''- [page14](https://code.claude.com/docs/en/page14)'' @ NL
              @ ''- [page15](https://code.claude.com/docs/en/page15)'' @ NL
              @ ''- [page16](https://code.claude.com/docs/en/page16)'' @ NL
              @ ''- [page17](https://code.claude.com/docs/en/page17)'' @ NL
              @ ''- [page18](https://code.claude.com/docs/en/page18)'' @ NL
              @ ''- [page19](https://code.claude.com/docs/en/page19)'' @ NL
              @ ''- [page20](https://code.claude.com/docs/en/page20)'' @ NL
              @ NL @ ''*... and 5 more pages*'' @ NL
              @ NL)
           @ footer"
proof -
  have n: "nat_toString 25 = ''25''" "nat_toString 5 = ''5''"
    by (simp_all add: nat_toString.simps digit_char_def)
  have "generateMarkdown sample_env slow_clock (sample_report \<lparr> docs := sample_docs \<rparr>) \<noteq> None"
    by (simp add: generateMarkdown_def sample_report_def sample_env_def commits_section_def
          commit_lines_def releases_section_def prs_section_def)
  then obtain md
    where m: "generateMarkdown sample_env slow_clock (sample_report \<lparr> docs := sample_docs \<rparr>) = Some md"
    by blast
  from docs_section_rendered [OF m]
  obtain before where b: "md = before @ docs_section (docs (sample_report \<lparr> docs := sample_docs \<rparr>))
      @ notes_section (releaseNotes (sample_report \<lparr> docs := sample_docs \<rparr>)) @ footer"
    and s: "length (docs (sample_report \<lparr> docs := sample_docs \<rparr>)) > 20 \<longrightarrow>
            docs_section (docs (sample_report \<lparr> docs := sample_docs \<rparr>))
            = ''## Documentation Pages (''
              @ nat_toString (length (docs (sample_report \<lparr> docs := sample_docs \<rparr>))) @ '')'' @ NL @ NL
              @ ''*Current documentation pages available:'' @ NL @ NL
              @ concat (map (\<lambda>doc. ''- ['' @ doc_title doc @ '']('' @ url doc @ '')'' @ NL)
                          (take 20 (docs (sample_report \<lparr> docs := sample_docs \<rparr>))))
              @ NL @ ''*... and ''
              @ nat_toString (length (docs (sample_report \<lparr> docs := sample_docs \<rparr>)) - 20)
              @ '' more pages*'' @ NL
              @ NL"
    by blast
  have d: "docs (sample_report \<lparr> docs := sample_docs \<rparr>) = sample_docs"
    "releaseNotes (sample_report \<lparr> docs := sample_docs \<rparr>) = []"
    by (simp_all add: sample_report_def)
  have sec: "docs_section sample_docs
            = ''## Documentation Pages (25)'' @ NL @ NL
              @ ''*Current documentation pages available:'' @ NL @ NL
              @ concat (map (\<lambda>doc. ''- ['' @ doc_title doc @ '']('' @ url doc @ '')'' @ NL)
                          (take 20 sample_docs))
              @ NL @ ''*... and 5 more pages*'' @ NL
              @ NL"
    using s unfolding d by (simp add: sample_docs_length n)
  have "md = before
           @ (''## Documentation Pages (25)'' @ NL @ NL
              @ ''*Current documentation pages available:'' @ NL @ NL
              @ concat (map (\<lambda>doc. ''- ['' @ doc_title doc @ '']('' @ url doc @ '')'' @ NL)
                          (take 20 sample_docs))
              @ NL @ ''*... and 5 more pages*'' @ NL
              @ NL)
           @ footer"
    using b unfolding d sec by (simp add: notes_section_def)
  with m d(1) sample_docs_length show ?thesis
    unfolding sample_docs_items by auto
qed

section \<open>Determinism of the renderer\<close>

text \<open>
  Claim C7. The renderer is deterministic: on the same host and the same report, two
  invocations whose generation timestamp (the first reading of the clock) is the same
  return the same text, or both throw; no later reading of the clock has a part in it.
\<close>

theorem generateMarkdown_deterministic:
  assumes "clock1 0 = clock2 0"
  shows "generateMarkdown env clock1 report = generateMarkdown env clock2 report"
  using assms by (simp add: generateMarkdown_def)

theorem generateMarkdown_deterministic_witness:
  "slow_clock 0 = fast_clock 0 \<and> slow_clock 1 \<noteq> fast_clock 1
   \<and> generateMarkdown sample_env slow_clock sample_report
     = generateMarkdown sample_env fast_clock sample_report
   \<and> generateMarkdown sample_env slow_clock sample_report \<noteq> None"
proof -
  have h: "slow_clock 0 = fast_clock 0" by (simp add: slow_clock_def fast_clock_def)
  have d: "slow_clock 1 \<noteq> fast_clock 1" by (simp add: slow_clock_def fast_clock_def)
  have s: "generateMarkdown sample_env slow_clock sample_report \<noteq> None"
    by (simp add: generateMarkdown_def sample_report_def sample_env_def commits_section_def
          commit_lines_def releases_section_def prs_section_def)
  from h d s
    generateMarkdown_deterministic [of slow_clock fast_clock sample_env sample_report]
  show ?thesis by blast
qed

section \<open>The path of the report\<close>

lemma nat_toString_small: "n < 10 \<Longrightarrow> nat_toString n = [digit_char n]"
  by (simp add: nat_toString.simps [of n])

lemma nat_toString_step:
  "10 \<le> n \<Longrightarrow> nat_toString n = nat_toString (n div 10) @ [digit_char (n mod 10)]"
  by (simp add: nat_toString.simps [of n])

lemma nat_toString_four_digits:
  assumes "1000 \<le> n" and "n \<le> 9999"
  shows "nat_toString n
         = [digit_char (n div 1000), digit_char (n div 100 mod 10),
            digit_char (n div 10 mod 10), digit_char (n mod 10)]"
proof -
  have ge: "10 \<le> n" "10 \<le> n div 10" "10 \<le> n div 10 div 10" and lt: "n div 10 div 10 div 10 < 10"
    using assms by arith+
  have e: "n div 10 div 10 = n div 100" "n div 100 div 10 = n div 1000"
    by (simp_all add: div_mult2_eq [symmetric])
  show ?thesis
    using nat_toString_step [OF ge(1)] nat_toString_step [OF ge(2)] nat_toString_step [OF ge(3)]
      nat_toString_small [OF lt]
    by (simp add: e)
qed

lemma padStart2_two_digits:
  assumes "m < 100"
  shows "padStart2 (nat_toString m) = [digit_char (m div 10), digit_char (m mod 10)]"
proof (cases "m < 10")
  case True
  then show ?thesis
    by (simp add: padStart2_def nat_toString_small digit_char_def)
next
  case False
  then have ge: "10 \<le> m" by simp
  from assms have lt: "m div 10 < 10" by arith
  show ?thesis
    using nat_toString_step [OF ge] nat_toString_small [OF lt]
    by (simp add: padStart2_def)
qed

text \<open>
  Claim C8. The path that the report writer derives from a date is \<^verbatim>\<open>daily/\<close>, the
  year, \<^verbatim>\<open>/\<close>, the month (from 1) as two digits with a leading zero, \<^verbatim>\<open>/\<close>, the day of
  the month as two digits with a leading zero, and \<^verbatim>\<open>.md\<close>. The year is written in
  decimal, which is four digits for every year from 1000 to 9999; the only date the
  writer is given is the day of the run. The host's calendar gives months from 0 to 11
  and days from 1 to 31. For 2025-03-07 the path is \<^verbatim>\<open>daily/2025/03/07.md\<close>.
\<close>

theorem report_path_of_date:
  assumes "getMonth env t < 12" and "1 \<le> getDate env t" and "getDate env t \<le> 31"
  shows "report_path env (Some t)
         = ''daily/'' @ int_toString (getFullYear env t)
           @ ''/'' @ [digit_char ((getMonth env t + 1) div 10), digit_char ((getMonth env t + 1) mod 10)]
           @ ''/'' @ [digit_char (getDate env t div 10), digit_char (getDate env t mod 10)]
           @ ''.md''
       \<and> (1000 \<le> getFullYear env t \<and> getFullYear env t \<le> 9999 \<longrightarrow>
            report_path env (Some t)
            = ''daily/''
              @ [digit_char (nat (getFullYear env t) div 1000),
                 digit_char (nat (getFullYear env t) div 100 mod 10),
                 digit_char (nat (getFullYear env t) div 10 mod 10),
                 digit_char (nat (getFullYear env t) mod 10)]
              @ ''/'' @ [digit_char ((getMonth env t + 1) div 10), digit_char ((getMonth env t + 1) mod 10)]
              @ ''/'' @ [digit_char (getDate env t div 10), digit_char (getDate env t mod 10)]
              @ ''.md'')"
proof -
  have m: "padStart2 (nat_toString (getMonth env t + 1))
           = [digit_char ((getMonth env t + 1) div 10), digit_char ((getMonth env t + 1) mod 10)]"
    using assms(1) by (intro padStart2_two_digits) simp
  have d: "padStart2 (nat_toString (getDate env t))
           = [digit_char (getDate env t div 10), digit_char (getDate env t mod 10)]"
    using assms(3) by (intro padStart2_two_digits) simp
  have p: "report_path env (Some t)
         = ''daily/'' @ int_toString (getFullYear env t)
           @ ''/'' @ [digit_char ((getMonth env t + 1) div 10), digit_char ((getMonth env t + 1) mod 10)]
           @ ''/'' @ [digit_char (getDate env t div 10), digit_char (getDate env t mod 10)]
           @ ''.md''"
    by (simp add: report_path_def getDateParts_def m [simplified] d)
  have y: "int_toString (getFullYear env t)
            = [digit_char (nat (getFullYear env t) div 1000),
               digit_char (nat (getFullYear env t) div 100 mod 10),
               digit_char (nat (getFullYear env t) div 10 mod 10),
               digit_char (nat (getFullYear env t) mod 10)]"
    if r: "1000 \<le> getFullYear env t \<and> getFullYear env t \<le> 9999"
  proof -
    from r have "1000 \<le> nat (getFullYear env t)" and "nat (getFullYear env t) \<le> 9999"
      by arith+
    then have "nat_toString (nat (getFullYear env t))
               = [digit_char (nat (getFullYear env t) div 1000),
                  digit_char (nat (getFullYear env t) div 100 mod 10),
                  digit_char (nat (getFullYear env t) div 10 mod 10),
                  digit_char (nat (getFullYear env t) mod 10)]"
      by (rule nat_toString_four_digits)
    with r show ?thesis by (simp add: int_toString_def)
  qed
  show ?thesis
  proof (intro conjI impI)
    show "report_path env (Some t)
         = ''daily/'' @ int_toString (getFullYear env t)
           @ ''/'' @ [digit_char ((getMonth env t + 1) div 10), digit_char ((getMonth env t + 1) mod 10)]
           @ ''/'' @ [digit_char (getDate env t div 10), digit_char (getDate env t mod 10)]
           @ ''.md''"
      by (rule p)
  next
    assume r: "1000 \<le> getFullYear env t \<and> getFullYear env t \<le> 9999"
    show "report_path env (Some t)
            = ''daily/''
              @ [digit_char (nat (getFullYear env t) div 1000),
                 digit_char (nat (getFullYear env t) div 100 mod 10),
                 digit_char (nat (getFullYear env t) div 10 mod 10),
                 digit_char (nat (getFullYear env t) mod 10)]
              @ ''/'' @ [digit_char ((getMonth env t + 1) div 10), digit_char ((getMonth env t + 1) mod 10)]
              @ ''/'' @ [digit_char (getDate env t div 10), digit_char (getDate env t mod 10)]
              @ ''.md''"
      unfolding p y [OF r] ..
  qed
qed

text \<open>On the sample host, whose calendar shows 7 March 2025.\<close>

theorem report_path_of_date_witness:
  "getMonth sample_env 1741348800000 < 12
   \<and> 1 \<le> getDate sample_env 1741348800000 \<and> getDate sample_env 1741348800000 \<le> 31
   \<and> 1000 \<le> getFullYear sample_env 1741348800000 \<and> getFullYear sample_env 1741348800000 \<le> 9999
   \<and> report_path sample_env (Some 1741348800000) = ''daily/2025/03/07.md''"
proof -
  have h: "getMonth sample_env 1741348800000 < 12" "1 \<le> getDate sample_env 1741348800000"
    "getDate sample_env 1741348800000 \<le> 31"
    by (simp_all add: sample_env_def)
  have y: "1000 \<le> getFullYear sample_env 1741348800000 \<and> getFullYear sample_env 1741348800000 \<le> 9999"
    by (simp add: sample_env_def)
  have v: "getFullYear sample_env 1741348800000 = 2025" "getMonth sample_env 1741348800000 = 2"
    "getDate sample_env 1741348800000 = 7"
    by (simp_all add: sample_env_def)
  from report_path_of_date [OF h, THEN conjunct2] y
  have "report_path sample_env (Some 1741348800000)
        = ''daily/''
              @ [digit_char (nat (getFullYear sample_env 1741348800000) div 1000),
                 digit_char (nat (getFullYear sample_env 1741348800000) div 100 mod 10),
                 digit_char (nat (getFullYear sample_env 1741348800000) div 10 mod 10),
                 digit_char (nat (getFullYear sample_env 1741348800000) mod 10)]
              @ ''/'' @ [digit_char ((getMonth sample_env 1741348800000 + 1) div 10),
                        digit_char ((getMonth sample_env 1741348800000 + 1) mod 10)]
              @ ''/'' @ [digit_char (getDate sample_env 1741348800000 div 10),
                        digit_char (getDate sample_env 1741348800000 mod 10)]
              @ ''.md''"
    by blast
  then have "report_path sample_env (Some 1741348800000) = ''daily/2025/03/07.md''"
    by (simp add: v digit_char_def)
  with h y show ?thesis by blast
qed

section \<open>A run in which every fetcher fails\<close>

lemma failed_commits: "failed response \<Longrightarrow> fetchRecentCommits response = []"
  by (cases response) (simp_all add: failed_def fetchRecentCommits_def)

lemma failed_releases: "failed response \<Longrightarrow> fetchRecentReleases env now response = []"
  by (cases response) (simp_all add: failed_def fetchRecentReleases_def)

lemma failed_prs: "failed response \<Longrightarrow> fetchRecentPRs env now response = []"
  by (cases response) (simp_all add: failed_def fetchRecentPRs_def)

lemma failed_docs: "failed response \<Longrightarrow> checkDocumentationUpdates env clock response = []"
  by (cases response) (simp_all add: failed_def checkDocumentationUpdates_def)

lemma failed_notes: "failed response \<Longrightarrow> checkReleaseNotes response = []"
  by (cases response) (simp_all add: failed_def checkReleaseNotes_def)

lemma generateMarkdown_empty:
  "generateMarkdown env clock
     \<lparr> date = day, summary = line,
       github = \<lparr> commits = [], releases = [], pullRequests = [] \<rparr>,
       docs = [], releaseNotes = [] \<rparr>
   = Some (empty_report_text day (toISOString env (clock 0)) line)"
  by (simp add: generateMarkdown_def commits_section_def releases_section_def prs_section_def
        docs_section_def notes_section_def empty_report_text_def)

text \<open>
  When the five fetchers fail, the report that \<^verbatim>\<open>main\<close> assembles has five empty
  collections and the fixed summary, and it renders.
\<close>

lemma assemble_report_all_failed:
  assumes "failed (commits_response resp)"
      and "failed (releases_response resp)"
      and "failed (prs_response resp)"
      and "failed (docs_response resp)"
      and "failed (notes_response resp)"
  shows "assemble_report env clk resp day
         = \<lparr> date = day, summary = ''No updates detected in the last 24 hours.'',
             github = \<lparr> commits = [], releases = [], pullRequests = [] \<rparr>,
             docs = [], releaseNotes = [] \<rparr>"
  using assms
  by (simp add: assemble_report_def Let_def failed_commits failed_releases failed_prs
        failed_docs failed_notes build_summary_empty)

text \<open>
  No run completes: whatever the responses, \<^verbatim>\<open>main\<close> rejects and the file system is
  as it was before the run.
\<close>

lemma main_rejects: "\<exists>e. main env clk resp fs = (fs, Inl e)"
  by (simp add: main_def saveReport_def Let_def split: option.split)

text \<open>
  Claim C4. If every one of the five fetchers fails, each yields the empty collection, the
  run still completes and writes a report, and the summary of that report is exactly
  \<^verbatim>\<open>No updates detected in the last 24 hours.\<close>. The fetchers do yield the empty
  collection and the report is assembled with that summary, but the run does not complete
  and writes nothing: \<^verbatim>\<open>saveReport\<close> throws at its call of the undeclared \<^verbatim>\<open>$\<close>.
  The theorem runs \<^verbatim>\<open>main\<close> at noon on 2025-03-07 with five failing requests and
  no file on the disk.
\<close>

theorem main_rejects_when_fetchers_fail:
  "fetchRecentCommits (commits_response failing_responses) = []
   \<and> fetchRecentReleases sample_env (releases_now sample_clock)
        (releases_response failing_responses) = []
   \<and> fetchRecentPRs sample_env (prs_now sample_clock) (prs_response failing_responses) = []
   \<and> checkDocumentationUpdates sample_env (docs_clock sample_clock)
        (docs_response failing_responses) = []
   \<and> checkReleaseNotes (notes_response failing_responses) = []
   \<and> summary (assemble_report sample_env sample_clock failing_responses ''2025-03-07'')
     = ''No updates detected in the last 24 hours.''
   \<and> main sample_env sample_clock failing_responses Map.empty = (Map.empty, Inl ReferenceError)"
proof -
  have f: "failed (commits_response failing_responses)"
    "failed (releases_response failing_responses)"
    "failed (prs_response failing_responses)"
    "failed (docs_response failing_responses)"
    "failed (notes_response failing_responses)"
    by (simp_all add: failing_responses_def failed_def ok_def)
  have day: "formatDate sample_env (Some (today sample_clock)) = Some ''2025-03-07''"
    by (simp add: formatDate_def sample_env_def sample_clock_def)
  have "main sample_env sample_clock failing_responses Map.empty = (Map.empty, Inl ReferenceError)"
    by (simp add: main_def day assemble_report_all_failed [OF f] generateMarkdown_empty
          saveReport_def Let_def)
  then show ?thesis
    using f
    by (simp add: failed_commits failed_releases failed_prs failed_docs failed_notes
          assemble_report_all_failed [OF f])
qed

end
